theory Spec2Isabelle
  imports Complex_Main
begin

section \<open>Data model of the audio session controller (class PromptDj)\<close>

text \<open>
  Times on the output clock (\<open>audioContext.currentTime\<close>, \<open>nextStartTime\<close>, buffer
  durations) and prompt weights are JavaScript numbers; they are modelled as exact
  rationals. Wall-clock readings of \<open>Date.now()\<close> are integers (milliseconds).
  Strings are lists of code units.
\<close>

datatype PlaybackState = Stopped | Playing | Loading | Paused

text \<open>
  The platform's \<open>AudioBuffer\<close>: a number of sample frames at a sample rate. Its
  \<open>duration\<close> attribute is the quotient of the two.
\<close>

record AudioBuffer =
  buf_length :: nat
  buf_sampleRate :: nat

definition duration :: "AudioBuffer \<Rightarrow> rat" where
  "duration b = of_nat (buf_length b) / of_nat (buf_sampleRate b)"

text \<open>A thrown exception or a rejected promise, with its message.\<close>

datatype js_error = TypeError string | DecodeError string

text \<open>
  \<open>decodeAudioData(decode(data), audioContext, 48000, 2)\<close> is imported from
  \<open>./utils\<close>; the handlers take it as a parameter: it either fails or yields a buffer.
\<close>

type_synonym decoder = "string \<Rightarrow> js_error + AudioBuffer"

record WeightedPrompt =
  wp_text :: string
  wp_weight :: rat

record Prompt =
  promptId :: string
  color :: string
  ptext :: string
  weight :: rat
  isTextEditable :: "bool option"

text \<open>
  Inbound message: \<open>{setupComplete?, filteredPrompt?, serverContent?: {audioChunks?}}\<close>.
  A filtered prompt comes with its text and the reason, a chunk with its payload.
\<close>

record FilteredPrompt =
  fp_text :: string
  filteredReason :: string

record AudioChunk =
  data :: string

record ServerContent =
  audioChunks :: "AudioChunk list option"

record LiveMusicServerMessage =
  setupComplete :: bool
  filteredPrompt :: "FilteredPrompt option"
  serverContent :: "ServerContent option"

text \<open>
  A property of a JavaScript object literal is absent, present with the value
  \<open>undefined\<close>, or present with a value. Reading it gives \<open>undefined\<close> in the first
  two cases; an object spread \<open>{...a, ...b}\<close> lets every property present in \<open>b\<close> win,
  also one that holds \<open>undefined\<close>.
\<close>

datatype 'a field = Absent | Undefined | Defined 'a

fun read :: "'a field \<Rightarrow> 'a option" where
  "read Absent = None"
| "read Undefined = None"
| "read (Defined v) = Some v"

fun spread_field :: "'a field \<Rightarrow> 'a field \<Rightarrow> 'a field" where
  "spread_field old Absent = old"
| "spread_field old new = new"

text \<open>A JavaScript \<open>Map\<close> or object in insertion order: \<open>set\<close> keeps the place of a key already there.\<close>

fun map_set :: "'k \<Rightarrow> 'v \<Rightarrow> ('k \<times> 'v) list \<Rightarrow> ('k \<times> 'v) list" where
  "map_set k v [] = [(k, v)]"
| "map_set k v (kv # m) = (if fst kv = k then (k, v) # m else kv # map_set k v m)"

definition map_delete :: "'k \<Rightarrow> ('k \<times> 'v) list \<Rightarrow> ('k \<times> 'v) list" where
  "map_delete k m = filter (\<lambda>kv. fst kv \<noteq> k) m"

text \<open>
  The generation config: the two fields with an auto mode, and the remaining knobs
  (temperature, guidance, topK, seed, bpm, scale, mute flags) keyed by name, a present
  key holding a value or \<open>undefined\<close>.
\<close>

datatype cfg_value = CNum rat | CStr string | CBool bool

record LiveMusicGenerationConfig =
  density :: "rat field"
  brightness :: "rat field"
  knobs :: "(string \<times> cfg_value option) list"

definition spread :: "LiveMusicGenerationConfig \<Rightarrow> LiveMusicGenerationConfig \<Rightarrow> LiveMusicGenerationConfig" where
  "spread a b =
     \<lparr> density = spread_field (density a) (density b),
       brightness = spread_field (brightness a) (brightness b),
       knobs = fold (\<lambda>kv m. map_set (fst kv) (snd kv) m) (knobs b) (knobs a) \<rparr>"

section \<open>The settings panel (class SettingsController)\<close>

text \<open>
  The controller keeps, beside the config, the auto flag and the last defined value of
  density and of brightness. \<open>settingsChanged\<close> lists the details of the
  \<open>settings-changed\<close> events it has dispatched, oldest first.
\<close>

record SettingsController =
  config :: LiveMusicGenerationConfig
  autoDensity :: bool
  lastDefinedDensity :: "rat option"
  autoBrightness :: bool
  lastDefinedBrightness :: "rat option"
  settingsChanged :: "LiveMusicGenerationConfig list"

definition defaultConfig :: LiveMusicGenerationConfig where
  "defaultConfig =
     \<lparr> density = Absent, brightness = Absent,
       knobs = [(''temperature'', Some (CNum (11 / 10))), (''topK'', Some (CNum 40)),
                (''guidance'', Some (CNum 4))] \<rparr>"

definition newSettingsController :: SettingsController where
  "newSettingsController =
     \<lparr> config = defaultConfig, autoDensity = True, lastDefinedDensity = None,
       autoBrightness = True, lastDefinedBrightness = None, settingsChanged = [] \<rparr>"

definition dispatchSettingsChange :: "SettingsController \<Rightarrow> SettingsController" where
  "dispatchSettingsChange c =
     (let configToSend = config c;
          configToSend = (if autoDensity c then configToSend\<lparr>density := Undefined\<rparr> else configToSend);
          configToSend = (if autoBrightness c then configToSend\<lparr>brightness := Undefined\<rparr> else configToSend)
      in c\<lparr>settingsChanged := settingsChanged c @ [configToSend]\<rparr>)"

definition resetToDefaults :: "SettingsController \<Rightarrow> SettingsController" where
  "resetToDefaults c =
     dispatchSettingsChange
       (c\<lparr>config := defaultConfig, autoDensity := True, lastDefinedDensity := None,
          autoBrightness := True, lastDefinedBrightness := None\<rparr>)"

definition setConfig :: "LiveMusicGenerationConfig \<Rightarrow> SettingsController \<Rightarrow> SettingsController" where
  "setConfig newConfig c =
     (let updatedConfig = spread (config c) newConfig;
          c1 = (if read (density newConfig) \<noteq> None
                then c\<lparr>autoDensity := False, lastDefinedDensity := read (density newConfig)\<rparr>
                else c);
          c2 = (if read (brightness newConfig) \<noteq> None
                then c1\<lparr>autoBrightness := False, lastDefinedBrightness := read (brightness newConfig)\<rparr>
                else c1)
      in c2\<lparr>config := updatedConfig\<rparr>)"

definition connectedCallback :: "SettingsController \<Rightarrow> SettingsController" where
  "connectedCallback c =
     (let c1 = (if read (density (config c)) \<noteq> None
                then c\<lparr>lastDefinedDensity := read (density (config c)), autoDensity := False\<rparr>
                else c)
      in if read (brightness (config c1)) \<noteq> None
         then c1\<lparr>lastDefinedBrightness := read (brightness (config c1)), autoBrightness := False\<rparr>
         else c1)"

text \<open>
  What \<open>handleInputChange\<close> extracts from the event target: its id and the value read
  according to its type. The elements with id \<open>auto-density\<close> and \<open>auto-brightness\<close>
  are checkboxes (the value is \<open>checked\<close>); those with id \<open>density\<close> and
  \<open>brightness\<close> are range inputs, whose value is always a number; every other id
  is a knob, whose value is a number, a string, a boolean or \<open>undefined\<close>.
\<close>

datatype settings_input =
    AutoDensityInput bool
  | AutoBrightnessInput bool
  | DensityInput rat
  | BrightnessInput rat
  | KnobInput string "cfg_value option"

fun handleInputChange :: "settings_input \<Rightarrow> SettingsController \<Rightarrow> SettingsController" where
  "handleInputChange (AutoDensityInput val) c =
     (let newConfig = config c;
          c1 = c\<lparr>autoDensity := val\<rparr>;
          newConfig = newConfig\<lparr>density :=
                        (if autoDensity c1 then Undefined
                         else Defined (case lastDefinedDensity c1 of None \<Rightarrow> 1 / 2 | Some v \<Rightarrow> v))\<rparr>
      in dispatchSettingsChange (c1\<lparr>config := newConfig\<rparr>))"
| "handleInputChange (AutoBrightnessInput val) c =
     (let newConfig = config c;
          c1 = c\<lparr>autoBrightness := val\<rparr>;
          newConfig = newConfig\<lparr>brightness :=
                        (if autoBrightness c1 then Undefined
                         else Defined (case lastDefinedBrightness c1 of None \<Rightarrow> 1 / 2 | Some v \<Rightarrow> v))\<rparr>
      in dispatchSettingsChange (c1\<lparr>config := newConfig\<rparr>))"
| "handleInputChange (DensityInput val) c =
     (let newConfig = config c;
          c1 = c\<lparr>lastDefinedDensity := Some val\<rparr>;
          newConfig = (if \<not> autoDensity c1 then newConfig\<lparr>density := Defined val\<rparr> else newConfig)
      in dispatchSettingsChange (c1\<lparr>config := newConfig\<rparr>))"
| "handleInputChange (BrightnessInput val) c =
     (let newConfig = config c;
          c1 = c\<lparr>lastDefinedBrightness := Some val\<rparr>;
          newConfig = (if \<not> autoBrightness c1 then newConfig\<lparr>brightness := Defined val\<rparr> else newConfig)
      in dispatchSettingsChange (c1\<lparr>config := newConfig\<rparr>))"
| "handleInputChange (KnobInput key val) c =
     (let newConfig = config c;
          newConfig = newConfig\<lparr>knobs := map_set key val (knobs newConfig)\<rparr>
      in dispatchSettingsChange (c\<lparr>config := newConfig\<rparr>))"

section \<open>State of the session controller (class PromptDj)\<close>

text \<open>Commands sent to the live session, in the order they were issued.\<close>

datatype session_call =
    SetWeightedPrompts "WeightedPrompt list"
  | SetMusicGenerationConfig LiveMusicGenerationConfig
  | SessionPlay
  | SessionPause
  | SessionStop
  | SessionResetContext

text \<open>Automation commands issued on \<open>outputNode.gain\<close>: hold the current value at a time, ramp to a value by a time.\<close>

datatype gain_cmd = SetValueAtTime rat | LinearRampToValueAtTime rat rat

text \<open>
  The fields of PromptDj that the session, playback and control-plane code reads and
  writes, together with the observable effects: buffers handed to \<open>source.start\<close> with
  their start times, toasts dispatched, session commands, armed lookahead timers, gain
  automation, the \<open>lastCall\<close> slot of each of the two throttle closures, and the
  settings panel once it is rendered. Writing the user prompts to local storage is left
  out: nothing here reads it back.
\<close>

record PromptDj =
  userPrompts :: "(string \<times> Prompt) list"
  session :: bool
  nextStartTime :: rat
  playbackState :: PlaybackState
  filteredPrompts :: "string set"
  connectionError :: bool
  currentLyriaPrompts :: "WeightedPrompt list"
  started :: "(rat \<times> AudioBuffer) list"
  toasts :: "string list"
  sessionCalls :: "session_call list"
  loadingTimers :: nat
  gainCmds :: "gain_cmd list"
  promptsLastCall :: int
  configLastCall :: int
  settingsController :: "SettingsController option"

definition bufferTime :: rat where
  "bufferTime = 2"

text \<open>Field initialisers and constructor; the stored entries come from local storage and fill a new \<open>Map\<close>.\<close>

definition initial :: "(string \<times> Prompt) list \<Rightarrow> PromptDj" where
  "initial stored =
     \<lparr> userPrompts = fold (\<lambda>kv m. map_set (fst kv) (snd kv) m) stored [], session = False, nextStartTime = 0,
       playbackState = Stopped, filteredPrompts = {}, connectionError = True,
       currentLyriaPrompts = [], started = [], toasts = [], sessionCalls = [],
       loadingTimers = 0, gainCmds = [], promptsLastCall = 0, configLastCall = 0,
       settingsController = None \<rparr>"

definition dispatchToast :: "string \<Rightarrow> PromptDj \<Rightarrow> PromptDj" where
  "dispatchToast message s = s\<lparr>toasts := toasts s @ [message]\<rparr>"

section \<open>Transport commands\<close>

text \<open>
  Each command checks for a session, talks to it, sets the playback state and programs
  the gain ramp. \<open>audioContext.resume()\<close> in \<open>internalLoadAudio\<close> touches none of the
  fields modelled and is left out. \<open>now\<close> is the reading of \<open>audioContext.currentTime\<close>.
\<close>

definition internalPauseAudio :: "rat \<Rightarrow> PromptDj \<Rightarrow> PromptDj" where
  "internalPauseAudio now s =
     (if \<not> session s \<or> connectionError s then s
      else s\<lparr>sessionCalls := sessionCalls s @ [SessionPause],
             playbackState := Paused,
             gainCmds := gainCmds s @ [SetValueAtTime now, LinearRampToValueAtTime 0 (now + 1 / 10)],
             nextStartTime := 0\<rparr>)"

definition internalLoadAudio :: "rat \<Rightarrow> PromptDj \<Rightarrow> PromptDj" where
  "internalLoadAudio now s =
     (if \<not> session s \<or> connectionError s
      then dispatchToast ''Cannot play: Lyria session not available.'' (s\<lparr>playbackState := Stopped\<rparr>)
      else s\<lparr>sessionCalls := sessionCalls s @ [SessionPlay],
             playbackState := Loading,
             gainCmds := gainCmds s @ [SetValueAtTime now, LinearRampToValueAtTime 1 (now + 1 / 10)]\<rparr>)"

definition internalStopAudio :: "PromptDj \<Rightarrow> PromptDj" where
  "internalStopAudio s =
     (if \<not> session s then s
      else s\<lparr>sessionCalls := sessionCalls s @ [SessionStop],
             playbackState := Stopped,
             nextStartTime := 0\<rparr>)"

section \<open>Inbound session events\<close>

text \<open>
  The part of \<open>onmessage\<close> after the decoded buffer is available: prime the cursor when
  it holds the sentinel 0 (arming the timer that turns loading into playing), drop the
  buffer on under-run, otherwise start it at the cursor and advance the cursor.
\<close>

definition schedule :: "rat \<Rightarrow> AudioBuffer \<Rightarrow> PromptDj \<Rightarrow> PromptDj" where
  "schedule now audioBuffer s =
     (let s1 = (if nextStartTime s = 0
                then s\<lparr>nextStartTime := now + bufferTime, loadingTimers := Suc (loadingTimers s)\<rparr>
                else s)
      in if nextStartTime s1 < now
         then s1\<lparr>playbackState := Loading, nextStartTime := 0\<rparr>
         else s1\<lparr>started := started s1 @ [(nextStartTime s1, audioBuffer)],
                 nextStartTime := nextStartTime s1 + duration audioBuffer\<rparr>)"

text \<open>The callback of an armed lookahead timer.\<close>

definition loadingTimerFired :: "PromptDj \<Rightarrow> PromptDj" where
  "loadingTimerFired s =
     (if loadingTimers s = 0 then s
      else (let s1 = s\<lparr>loadingTimers := loadingTimers s - 1\<rparr>
            in if playbackState s1 = Loading then s1\<lparr>playbackState := Playing\<rparr> else s1))"

text \<open>
  The message handler returns normally or lets an exception escape (the async callback's
  promise rejects); the state reached is kept in both cases. \<open>now\<close> is the reading of
  \<open>audioContext.currentTime\<close>.
\<close>

datatype outcome = Returned | Threw js_error

definition onmessage :: "decoder \<Rightarrow> rat \<Rightarrow> LiveMusicServerMessage \<Rightarrow> PromptDj \<Rightarrow> outcome \<times> PromptDj" where
  "onmessage decodeAudioData now e s =
     (let s1 = (if setupComplete e then s\<lparr>connectionError := False\<rparr> else s);
          s2 = (case filteredPrompt e of
                  None \<Rightarrow> s1
                | Some fp \<Rightarrow>
                    dispatchToast (''Filtered: '' @ take 50 (filteredReason fp))
                      (s1\<lparr>filteredPrompts := insert (fp_text fp) (filteredPrompts s1)\<rparr>))
      in case (case serverContent e of None \<Rightarrow> None | Some sc \<Rightarrow> audioChunks sc) of
           None \<Rightarrow> (Returned, s2)
         | Some chunks \<Rightarrow>
             if playbackState s2 = Paused \<or> playbackState s2 = Stopped then (Returned, s2)
             else (case chunks of
                     [] \<Rightarrow> (Threw (TypeError ''audioChunks[0] is undefined''), s2)
                   | chunk # rest \<Rightarrow>
                       (case decodeAudioData (data chunk) of
                          Inl err \<Rightarrow> (Threw err, s2)
                        | Inr audioBuffer \<Rightarrow> (Returned, schedule now audioBuffer s2))))"

definition onerror :: "PromptDj \<Rightarrow> PromptDj" where
  "onerror s =
     dispatchToast ''Lyria connection error. Please restart.''
       (internalStopAudio (s\<lparr>connectionError := True\<rparr>))"

definition onclose :: "bool \<Rightarrow> PromptDj \<Rightarrow> PromptDj" where
  "onclose wasClean s =
     (if \<not> wasClean
      then dispatchToast ''Lyria connection closed unexpectedly.''
             (internalStopAudio (s\<lparr>connectionError := True\<rparr>))
      else s)"

text \<open>
  \<open>connectToSession\<close>: the awaited \<open>connect\<close> resolves with a session or rejects with
  an error message. Only a \<open>setupComplete\<close> message clears \<open>connectionError\<close>.
\<close>

datatype connect_result = Resolved | Rejected string

fun connectToSession :: "connect_result \<Rightarrow> PromptDj \<Rightarrow> PromptDj" where
  "connectToSession Resolved s = s\<lparr>session := True\<rparr>"
| "connectToSession (Rejected message) s =
     (dispatchToast (''Failed to connect to Lyria: '' @ take 100 message) s)
       \<lparr>connectionError := True, playbackState := Stopped\<rparr>"

section \<open>Control plane: throttled dispatch of prompts and config\<close>

text \<open>
  \<open>throttle(func, delay)\<close> closes over \<open>lastCall\<close>; the wrapper is modelled on the pair
  of that slot and the state \<open>func\<close> acts on. \<open>now\<close> is the reading of \<open>Date.now()\<close>.
\<close>

definition throttle :: "('a \<Rightarrow> 's \<Rightarrow> 's) \<Rightarrow> int \<Rightarrow> int \<Rightarrow> 'a \<Rightarrow> int \<times> 's \<Rightarrow> int \<times> 's" where
  "throttle func delay now args c =
     (let lastCall = fst c; s = snd c; timeSinceLastCall = now - lastCall
      in if timeSinceLastCall \<ge> delay then (now, func args s) else (lastCall, s))"

text \<open>
  The function wrapped by \<open>setSessionPrompts\<close>, up to the call of
  \<open>session.setWeightedPrompts\<close>; the rejection of that call is \<open>setSessionPrompts_catch\<close>.
\<close>

definition setSessionPrompts_func :: "WeightedPrompt list \<Rightarrow> PromptDj \<Rightarrow> PromptDj" where
  "setSessionPrompts_func prompts s =
     (if \<not> session s \<or> connectionError s then s
      else
        (let userWPs = map (\<lambda>p. \<lparr>wp_text = ptext p, wp_weight = weight p\<rparr>)
                         (filter (\<lambda>p. weight p > 0 \<and> ptext p \<notin> filteredPrompts s)
                            (map snd (userPrompts s)));
             allPrompts = prompts @ userWPs;
             allPrompts = (if length allPrompts = 0
                           then allPrompts @ [\<lparr>wp_text = ''silence'', wp_weight = 1 / 100\<rparr>]
                           else allPrompts)
         in s\<lparr>sessionCalls := sessionCalls s @ [SetWeightedPrompts allPrompts]\<rparr>))"

definition setSessionPrompts_catch :: "rat \<Rightarrow> string \<Rightarrow> PromptDj \<Rightarrow> PromptDj" where
  "setSessionPrompts_catch now message s =
     internalPauseAudio now (dispatchToast (''Error setting prompts: '' @ take 100 message) s)"

definition setSessionPrompts :: "int \<Rightarrow> WeightedPrompt list \<Rightarrow> PromptDj \<Rightarrow> PromptDj" where
  "setSessionPrompts now prompts s =
     (let r = throttle setSessionPrompts_func 200 now prompts (promptsLastCall s, s)
      in (snd r)\<lparr>promptsLastCall := fst r\<rparr>)"

definition updateLyriaConfig_func :: "LiveMusicGenerationConfig \<Rightarrow> PromptDj \<Rightarrow> PromptDj" where
  "updateLyriaConfig_func cfg s =
     (if \<not> session s \<or> connectionError s then s
      else s\<lparr>sessionCalls := sessionCalls s @ [SetMusicGenerationConfig cfg]\<rparr>)"

definition updateLyriaConfig_catch :: "string \<Rightarrow> PromptDj \<Rightarrow> PromptDj" where
  "updateLyriaConfig_catch message s =
     dispatchToast (''Error setting Lyria config: '' @ take 100 message) s"

definition updateLyriaConfig :: "int \<Rightarrow> LiveMusicGenerationConfig \<Rightarrow> PromptDj \<Rightarrow> PromptDj" where
  "updateLyriaConfig now cfg s =
     (let r = throttle updateLyriaConfig_func 200 now cfg (configLastCall s, s)
      in (snd r)\<lparr>configLastCall := fst r\<rparr>)"

text \<open>The agent's output: a prompt set and, possibly, a config.\<close>

record MCPPromptAndConfig =
  mcp_weightedPrompts :: "WeightedPrompt list"
  mcp_config :: "LiveMusicGenerationConfig option"

definition updateLyriaPrompts :: "int \<Rightarrow> MCPPromptAndConfig \<Rightarrow> PromptDj \<Rightarrow> PromptDj" where
  "updateLyriaPrompts now promptAndConfig s =
     (let s1 = s\<lparr>currentLyriaPrompts := mcp_weightedPrompts promptAndConfig\<rparr>;
          s2 = setSessionPrompts now (mcp_weightedPrompts promptAndConfig) s1
      in case (settingsController s2, mcp_config promptAndConfig) of
           (Some c, Some cfg) \<Rightarrow>
             updateLyriaConfig now cfg (s2\<lparr>settingsController := Some (setConfig cfg c)\<rparr>)
         | _ \<Rightarrow> s2)"

text \<open>
  The listener of \<open>settings-changed\<close>, and an input event of the settings panel: the
  panel handles it and its event reaches the listener with the dispatched config. The
  listener also forwards the config to the dashboard (\<open>user-lyria-config-override\<close>),
  which only updates the dashboard's copy of the agent output.
\<close>

definition handleSettingsChanged :: "int \<Rightarrow> LiveMusicGenerationConfig \<Rightarrow> PromptDj \<Rightarrow> PromptDj" where
  "handleSettingsChanged now detail s = updateLyriaConfig now detail s"

definition settingsInput :: "int \<Rightarrow> settings_input \<Rightarrow> PromptDj \<Rightarrow> PromptDj" where
  "settingsInput now i s =
     (case settingsController s of
        None \<Rightarrow> s
      | Some c \<Rightarrow>
          (let c1 = handleInputChange i c
           in handleSettingsChanged now (last (settingsChanged c1)) (s\<lparr>settingsController := Some c1\<rparr>)))"

section \<open>User prompts\<close>

definition handleUserPromptChanged :: "int \<Rightarrow> Prompt \<Rightarrow> PromptDj \<Rightarrow> PromptDj" where
  "handleUserPromptChanged now detail s =
     (case map_of (userPrompts s) (promptId detail) of
        None \<Rightarrow> s
      | Some prompt \<Rightarrow>
          (let updatedPrompt = prompt\<lparr>ptext := ptext detail, weight := weight detail,
                                       color := color detail, isTextEditable := isTextEditable detail\<rparr>;
               s1 = s\<lparr>userPrompts := map_set (promptId detail) updatedPrompt (userPrompts s)\<rparr>
           in setSessionPrompts now (currentLyriaPrompts s1) s1))"

text \<open>The id of the new prompt, its preset text and its colour are chosen by the caller (a counter and two random draws).\<close>

definition handleAddUserPrompt :: "int \<Rightarrow> string \<Rightarrow> string \<Rightarrow> string \<Rightarrow> PromptDj \<Rightarrow> PromptDj" where
  "handleAddUserPrompt now newPromptId presetText newColor s =
     (let newPrompt = \<lparr>promptId = newPromptId, color = newColor, ptext = presetText,
                        weight = 0, isTextEditable = Some True\<rparr>;
          s1 = s\<lparr>userPrompts := map_set newPromptId newPrompt (userPrompts s)\<rparr>
      in setSessionPrompts now (currentLyriaPrompts s1) s1)"

definition handleUserPromptRemoved :: "int \<Rightarrow> string \<Rightarrow> PromptDj \<Rightarrow> PromptDj" where
  "handleUserPromptRemoved now promptIdToRemove s =
     (if promptIdToRemove \<in> fst ` set (userPrompts s)
      then (let s1 = s\<lparr>userPrompts := map_delete promptIdToRemove (userPrompts s)\<rparr>
            in setSessionPrompts now (currentLyriaPrompts s1) s1)
      else s)"

section \<open>Play, pause and reset\<close>

text \<open>
  \<open>handlePlayPause\<close>, with the result of the \<open>connect\<close> it may await, the dashboard's
  current agent output (\<open>this.mcp\<close>, when set), and the readings of the two clocks.
  \<open>handlePlayPause_connected\<close> is the part that runs once the awaited
  \<open>connectToSession\<close> has returned.
\<close>

definition handlePlayPause_connected ::
    "MCPPromptAndConfig option \<Rightarrow> int \<Rightarrow> rat \<Rightarrow> PromptDj \<Rightarrow> PromptDj" where
  "handlePlayPause_connected mcp wall now s =
     (if \<not> connectionError s
      then internalLoadAudio now
             (case mcp of
                Some current_prompt \<Rightarrow> updateLyriaPrompts wall current_prompt s
              | None \<Rightarrow> setSessionPrompts wall [] s)
      else s)"

definition handlePlayPause ::
    "connect_result \<Rightarrow> MCPPromptAndConfig option \<Rightarrow> int \<Rightarrow> rat \<Rightarrow> PromptDj \<Rightarrow> PromptDj" where
  "handlePlayPause r mcp wall now s =
     (if playbackState s = Playing then internalPauseAudio now s
      else if playbackState s = Paused \<or> playbackState s = Stopped then
        (if connectionError s
         then handlePlayPause_connected mcp wall now (connectToSession r s)
         else internalLoadAudio now s)
      else if playbackState s = Loading then internalStopAudio s
      else s)"

definition playAudio ::
    "connect_result \<Rightarrow> MCPPromptAndConfig option \<Rightarrow> int \<Rightarrow> rat \<Rightarrow> PromptDj \<Rightarrow> PromptDj" where
  "playAudio r mcp wall now s =
     (if playbackState s \<noteq> Playing \<and> playbackState s \<noteq> Loading
      then handlePlayPause r mcp wall now s else s)"

definition pauseAudio :: "rat \<Rightarrow> PromptDj \<Rightarrow> PromptDj" where
  "pauseAudio now s =
     (if playbackState s = Playing \<or> playbackState s = Loading
      then internalPauseAudio now s else s)"

text \<open>
  \<open>handleReset\<close> up to its 100 ms timer, and the timer's callback;
  \<open>handleReset_connected\<close> is the part after the awaited \<open>connectToSession\<close>, and
  \<open>handleReset_rest\<close> the part after the connection check. The dashboard
  answers the \<open>reset-mcp-musical-defaults\<close> event by calling \<open>updateLyriaPrompts\<close>
  with its fixed reset prompt. Without a session object the call of
  \<open>session.resetContext\<close> throws, and so does \<open>settingsController.resetToDefaults\<close>
  before the panel is rendered; the handler ends there.
\<close>

definition resetPrompt :: MCPPromptAndConfig where
  "resetPrompt =
     \<lparr> mcp_weightedPrompts = [\<lparr>wp_text = ''ambient gentle reset'', wp_weight = 1\<rparr>],
       mcp_config = Some \<lparr> density = Defined (3 / 10), brightness = Defined (1 / 2),
                            knobs = [(''temperature'', Some (CNum (8 / 10))), (''topK'', Some (CNum 40)),
                                     (''guidance'', Some (CNum 3))] \<rparr> \<rparr>"

definition handleReset_rest :: "int \<Rightarrow> rat \<Rightarrow> PromptDj \<Rightarrow> PromptDj" where
  "handleReset_rest wall now s =
     (let s2 = internalPauseAudio now s
      in if \<not> session s2 then s2
         else
           (let s3 = s2\<lparr>sessionCalls := sessionCalls s2 @ [SessionResetContext]\<rparr>
            in case settingsController s3 of
                 None \<Rightarrow> s3
               | Some c \<Rightarrow>
                   (let c1 = resetToDefaults c;
                        s4 = handleSettingsChanged wall (last (settingsChanged c1))
                               (s3\<lparr>settingsController := Some c1\<rparr>)
                    in updateLyriaPrompts wall resetPrompt s4)))"

definition handleReset_connected :: "int \<Rightarrow> rat \<Rightarrow> PromptDj \<Rightarrow> PromptDj" where
  "handleReset_connected wall now s =
     (if connectionError s
      then dispatchToast ''Cannot reset: Lyria connection failed.'' s
      else handleReset_rest wall now s)"

definition handleReset :: "connect_result \<Rightarrow> int \<Rightarrow> rat \<Rightarrow> PromptDj \<Rightarrow> PromptDj" where
  "handleReset r wall now s =
     (if connectionError s
      then handleReset_connected wall now (connectToSession r s)
      else handleReset_rest wall now s)"

definition handleReset_timer :: "rat \<Rightarrow> PromptDj \<Rightarrow> PromptDj" where
  "handleReset_timer now s = (if \<not> connectionError s then internalLoadAudio now s else s)"

section \<open>Histories\<close>

text \<open>
  Everything that can happen to the controller, one event per callback or handler run.
  A handler that awaits \<open>connectToSession\<close> appears both as one event, with the
  result of the connect, and in two pieces (\<open>Connect\<close>, then the part after the
  await), so that other events can come in between. A message handler runs to its end:
  the decoder is a function and takes no time. \<open>run\<close> replays a history from a
  state; an exception escaping a message handler ends that handler only.
\<close>

datatype event =
    Connect connect_result
  | Rendered
  | Message rat LiveMusicServerMessage
  | ErrorEvent
  | CloseEvent bool
  | LoadingTimer
  | PlayPause connect_result "MCPPromptAndConfig option" int rat
  | PlayPauseConnected "MCPPromptAndConfig option" int rat
  | PlayAudio connect_result "MCPPromptAndConfig option" int rat
  | PauseAudio rat
  | Reset connect_result int rat
  | ResetConnected int rat
  | ResetTimer rat
  | AgentOutput int MCPPromptAndConfig
  | SettingsInput int settings_input
  | PromptChanged int Prompt
  | PromptAdded int string string string
  | PromptRemoved int string
  | PromptsRejected rat string
  | ConfigRejected string

fun step :: "decoder \<Rightarrow> event \<Rightarrow> PromptDj \<Rightarrow> PromptDj" where
  "step dec (Connect r) s = connectToSession r s"
| "step dec Rendered s =
     (if settingsController s = None
      then s\<lparr>settingsController := Some (connectedCallback newSettingsController)\<rparr> else s)"
| "step dec (Message now e) s = snd (onmessage dec now e s)"
| "step dec ErrorEvent s = onerror s"
| "step dec (CloseEvent wasClean) s = onclose wasClean s"
| "step dec LoadingTimer s = loadingTimerFired s"
| "step dec (PlayPause r mcp wall now) s = handlePlayPause r mcp wall now s"
| "step dec (PlayPauseConnected mcp wall now) s = handlePlayPause_connected mcp wall now s"
| "step dec (PlayAudio r mcp wall now) s = playAudio r mcp wall now s"
| "step dec (PauseAudio now) s = pauseAudio now s"
| "step dec (Reset r wall now) s = handleReset r wall now s"
| "step dec (ResetConnected wall now) s = handleReset_connected wall now s"
| "step dec (ResetTimer now) s = handleReset_timer now s"
| "step dec (AgentOutput wall pc) s = updateLyriaPrompts wall pc s"
| "step dec (SettingsInput wall i) s = settingsInput wall i s"
| "step dec (PromptChanged wall detail) s = handleUserPromptChanged wall detail s"
| "step dec (PromptAdded wall newId presetText newColor) s = handleAddUserPrompt wall newId presetText newColor s"
| "step dec (PromptRemoved wall pid) s = handleUserPromptRemoved wall pid s"
| "step dec (PromptsRejected now message) s = setSessionPrompts_catch now message s"
| "step dec (ConfigRejected message) s = updateLyriaConfig_catch message s"

fun run :: "decoder \<Rightarrow> event list \<Rightarrow> PromptDj \<Rightarrow> PromptDj" where
  "run dec [] s = s"
| "run dec (ev # evs) s = run dec evs (step dec ev s)"


definition interleaved :: "(event list \<times> rat \<times> LiveMusicServerMessage) list \<Rightarrow> event list" where
  "interleaved bs = concat (map (\<lambda>b. fst b @ [Message (fst (snd b)) (snd (snd b))]) bs)"

text \<open>
  Two properties of a state, used as invariants of histories: without a session object
  playback is stopped with the cursor at its sentinel; no prompt set sent so far is empty.
\<close>

definition idleWithoutSession :: "PromptDj \<Rightarrow> bool" where
  "idleWithoutSession s = (session s \<or> (playbackState s = Stopped \<and> nextStartTime s = 0))"

definition noEmptyPromptSet :: "PromptDj \<Rightarrow> bool" where
  "noEmptyPromptSet s = (SetWeightedPrompts [] \<notin> set (sessionCalls s))"

section \<open>Sample inputs\<close>

text \<open>
  A message carrying one audio chunk, a controller with a live session in a given playback
  state and cursor position, a decoder that yields one second of audio, one that yields
  a quarter of a second for each character of the payload, and one that fails.
\<close>

definition chunkMessage :: "string \<Rightarrow> LiveMusicServerMessage" where
  "chunkMessage d =
     \<lparr> setupComplete = False, filteredPrompt = None,
       serverContent = Some \<lparr> audioChunks = Some [\<lparr> data = d \<rparr>] \<rparr> \<rparr>"

definition withSession :: "PlaybackState \<Rightarrow> rat \<Rightarrow> PromptDj" where
  "withSession st t =
     (initial [])\<lparr>session := True, connectionError := False, playbackState := st, nextStartTime := t\<rparr>"

definition oneSecond :: decoder where
  "oneSecond d = Inr \<lparr> buf_length = 48000, buf_sampleRate = 48000 \<rparr>"

definition byLength :: decoder where
  "byLength d = Inr \<lparr> buf_length = 12000 * length d, buf_sampleRate = 48000 \<rparr>"

definition malformed :: decoder where
  "malformed d = Inl (DecodeError ''malformed payload'')"

section \<open>Under-run and re-priming\<close>

lemma onmessage_underrun:
  assumes "playbackState s \<noteq> Paused" "playbackState s \<noteq> Stopped"
    "serverContent e = Some sc" "audioChunks sc = Some (chunk # rest)" "dec (data chunk) = Inr buf"
    "nextStartTime s \<noteq> 0" "nextStartTime s < now"
  shows "\<exists>s1. onmessage dec now e s = (Returned, s1) \<and> started s1 = started s \<and> nextStartTime s1 = 0
     \<and> playbackState s1 = Loading \<and> loadingTimers s1 = loadingTimers s"
  using assms
  by (simp add: onmessage_def schedule_def Let_def dispatchToast_def split: option.splits)

lemma onmessage_prime:
  assumes "playbackState s = Loading \<or> playbackState s = Playing"
    "serverContent e = Some sc" "audioChunks sc = Some (chunk # rest)" "dec (data chunk) = Inr buf"
    "nextStartTime s = 0"
  shows "\<exists>s2. onmessage dec now e s = (Returned, s2) \<and>
              started s2 = started s @ [(now + bufferTime, buf)] \<and>
              nextStartTime s2 = now + bufferTime + duration buf \<and>
              loadingTimers s2 = Suc (loadingTimers s) \<and>
              playbackState s2 = playbackState s"
  using assms
  by (auto simp add: onmessage_def schedule_def Let_def dispatchToast_def bufferTime_def split: option.splits)

text \<open>
  Claim C1. A message arrives while playback is neither paused nor stopped, its first
  chunk decodes, and the cursor computed earlier (so not the sentinel 0) lies strictly
  before the current time of the output clock. Then the handler returns without starting
  the buffer, the cursor is back at the sentinel 0 and the state is loading. Whatever
  decodable chunk is handled next in that state, at whatever time, is started at that time
  plus \<open>bufferTime\<close>, a new lookahead timer is armed and the cursor ends one buffer
  duration later.
\<close>

theorem underrun_resets_and_next_chunk_reprimes:
  assumes "playbackState s \<noteq> Paused" "playbackState s \<noteq> Stopped"
    "serverContent e = Some sc" "audioChunks sc = Some (chunk # rest)" "dec (data chunk) = Inr buf"
    "nextStartTime s \<noteq> 0" "nextStartTime s < now"
  shows "\<exists>s1. onmessage dec now e s = (Returned, s1) \<and> started s1 = started s \<and> nextStartTime s1 = 0
     \<and> playbackState s1 = Loading \<and>
     (\<forall>now' e' sc' chunk' rest' buf'.
        serverContent e' = Some sc' \<and> audioChunks sc' = Some (chunk' # rest') \<and> dec (data chunk') = Inr buf' \<longrightarrow>
        (\<exists>s2. onmessage dec now' e' s1 = (Returned, s2) \<and>
              started s2 = started s1 @ [(now' + bufferTime, buf')] \<and>
              nextStartTime s2 = now' + bufferTime + duration buf' \<and>
              loadingTimers s2 = Suc (loadingTimers s1) \<and>
              playbackState s2 = Loading))"
proof -
  from onmessage_underrun [where dec = dec and chunk = chunk, OF assms] obtain s1 where
    s1: "onmessage dec now e s = (Returned, s1)" "started s1 = started s" "nextStartTime s1 = 0"
        "playbackState s1 = Loading"
    by blast
  have "\<exists>s2. onmessage dec now' e' s1 = (Returned, s2) \<and>
              started s2 = started s1 @ [(now' + bufferTime, buf')] \<and>
              nextStartTime s2 = now' + bufferTime + duration buf' \<and>
              loadingTimers s2 = Suc (loadingTimers s1) \<and>
              playbackState s2 = Loading"
    if "serverContent e' = Some sc'" "audioChunks sc' = Some (chunk' # rest')" "dec (data chunk') = Inr buf'"
    for now' e' sc' chunk' rest' buf'
    using onmessage_prime [where dec = dec and chunk = chunk' and s = s1 and e = e' and now = now'] that s1
    by simp
  with s1 show ?thesis by blast
qed

theorem underrun_resets_and_next_chunk_reprimes_witness:
  "playbackState (withSession Playing 5) \<noteq> Paused \<and> playbackState (withSession Playing 5) \<noteq> Stopped \<and>
   nextStartTime (withSession Playing 5) \<noteq> 0 \<and> nextStartTime (withSession Playing 5) < 7 \<and>
   (\<exists>s1. onmessage oneSecond 7 (chunkMessage ''AAAA'') (withSession Playing 5) = (Returned, s1) \<and>
         started s1 = [] \<and> nextStartTime s1 = 0 \<and> playbackState s1 = Loading \<and>
         (\<exists>s2. onmessage oneSecond 8 (chunkMessage ''BBBB'') s1 = (Returned, s2) \<and>
               started s2 = [(10, \<lparr> buf_length = 48000, buf_sampleRate = 48000 \<rparr>)] \<and>
               nextStartTime s2 = 11))"
proof -
  have h: "playbackState (withSession Playing 5) \<noteq> Paused" "playbackState (withSession Playing 5) \<noteq> Stopped"
    "serverContent (chunkMessage ''AAAA'') = Some \<lparr> audioChunks = Some [\<lparr> data = ''AAAA'' \<rparr>] \<rparr>"
    "audioChunks \<lparr> audioChunks = Some [\<lparr> data = ''AAAA'' \<rparr>] \<rparr> = Some (\<lparr> data = ''AAAA'' \<rparr> # [])"
    "oneSecond (data \<lparr> data = ''AAAA'' \<rparr>) = Inr \<lparr> buf_length = 48000, buf_sampleRate = 48000 \<rparr>"
    "nextStartTime (withSession Playing 5) \<noteq> 0" "nextStartTime (withSession Playing 5) < 7"
    by (simp_all add: withSession_def initial_def chunkMessage_def oneSecond_def)
  from underrun_resets_and_next_chunk_reprimes
         [where dec = oneSecond and chunk = "\<lparr> data = ''AAAA'' \<rparr>", OF h]
  obtain s1 where s1: "onmessage oneSecond 7 (chunkMessage ''AAAA'') (withSession Playing 5) = (Returned, s1)"
    "started s1 = started (withSession Playing 5)" "nextStartTime s1 = 0" "playbackState s1 = Loading"
    and nxt: "\<And>now' e' sc' chunk' rest' buf'.
        serverContent e' = Some sc' \<and> audioChunks sc' = Some (chunk' # rest') \<and> oneSecond (data chunk') = Inr buf' \<Longrightarrow>
        (\<exists>s2. onmessage oneSecond now' e' s1 = (Returned, s2) \<and>
              started s2 = started s1 @ [(now' + bufferTime, buf')] \<and>
              nextStartTime s2 = now' + bufferTime + duration buf' \<and>
              loadingTimers s2 = Suc (loadingTimers s1) \<and>
              playbackState s2 = Loading)"
    by blast
  have "\<exists>s2. onmessage oneSecond 8 (chunkMessage ''BBBB'') s1 = (Returned, s2) \<and>
              started s2 = started s1 @ [(8 + bufferTime, \<lparr> buf_length = 48000, buf_sampleRate = 48000 \<rparr>)] \<and>
              nextStartTime s2 = 8 + bufferTime + duration \<lparr> buf_length = 48000, buf_sampleRate = 48000 \<rparr> \<and>
              loadingTimers s2 = Suc (loadingTimers s1) \<and>
              playbackState s2 = Loading"
    by (rule nxt [where sc' = "\<lparr> audioChunks = Some [\<lparr> data = ''BBBB'' \<rparr>] \<rparr>"
                    and chunk' = "\<lparr> data = ''BBBB'' \<rparr>" and rest' = "[]"])
       (simp add: chunkMessage_def oneSecond_def)
  then obtain s2 where "onmessage oneSecond 8 (chunkMessage ''BBBB'') s1 = (Returned, s2)"
    "started s2 = started s1 @ [(8 + bufferTime, \<lparr> buf_length = 48000, buf_sampleRate = 48000 \<rparr>)]"
    "nextStartTime s2 = 8 + bufferTime + duration \<lparr> buf_length = 48000, buf_sampleRate = 48000 \<rparr>"
    by blast
  with s1 have "\<exists>s2. onmessage oneSecond 8 (chunkMessage ''BBBB'') s1 = (Returned, s2) \<and>
               started s2 = [(10, \<lparr> buf_length = 48000, buf_sampleRate = 48000 \<rparr>)] \<and>
               nextStartTime s2 = 11"
    by (simp add: withSession_def initial_def bufferTime_def duration_def)
  with s1 h show ?thesis
    by (simp add: withSession_def initial_def)
qed

section \<open>Messages with several chunks\<close>

text \<open>
  Claim C10. When the chunk array of a message holds more than one chunk, the handler's
  result and the state it leaves are those of the same message with only the first chunk:
  the remaining chunks have no effect at all. At most one buffer is started, and it is the
  one decoded from the first chunk.
\<close>

theorem only_first_chunk_is_used:
  "onmessage dec now (e\<lparr>serverContent := Some \<lparr> audioChunks = Some (chunk # rest) \<rparr>\<rparr>) s
     = onmessage dec now (e\<lparr>serverContent := Some \<lparr> audioChunks = Some [chunk] \<rparr>\<rparr>) s \<and>
   (started (snd (onmessage dec now (e\<lparr>serverContent := Some \<lparr> audioChunks = Some (chunk # rest) \<rparr>\<rparr>) s))
      = started s \<or>
    (\<exists>t b. dec (data chunk) = Inr b \<and>
       started (snd (onmessage dec now (e\<lparr>serverContent := Some \<lparr> audioChunks = Some (chunk # rest) \<rparr>\<rparr>) s))
         = started s @ [(t, b)]))"
  by (simp add: onmessage_def schedule_def Let_def dispatchToast_def split: option.splits sum.splits)

theorem only_first_chunk_is_used_witness:
  "onmessage byLength 1
     ((chunkMessage ''AA'')\<lparr>serverContent :=
        Some \<lparr> audioChunks = Some (\<lparr> data = ''AA'' \<rparr> # [\<lparr> data = ''BBBB'' \<rparr>, \<lparr> data = ''C'' \<rparr>]) \<rparr>\<rparr>)
     (withSession Loading 0)
   = (Returned,
      (withSession Loading 0)\<lparr>nextStartTime := 7 / 2, loadingTimers := 1,
         started := [(3, \<lparr> buf_length = 24000, buf_sampleRate = 48000 \<rparr>)]\<rparr>)"
proof -
  have "onmessage byLength 1 ((chunkMessage ''AA'')\<lparr>serverContent := Some \<lparr> audioChunks = Some [\<lparr> data = ''AA'' \<rparr>] \<rparr>\<rparr>)
          (withSession Loading 0)
        = (Returned,
           (withSession Loading 0)\<lparr>nextStartTime := 7 / 2, loadingTimers := 1,
              started := [(3, \<lparr> buf_length = 24000, buf_sampleRate = 48000 \<rparr>)]\<rparr>)"
    by (simp add: onmessage_def schedule_def Let_def chunkMessage_def withSession_def initial_def
          byLength_def bufferTime_def duration_def)
  with only_first_chunk_is_used [where dec = byLength and now = 1 and e = "chunkMessage ''AA''"
         and chunk = "\<lparr> data = ''AA'' \<rparr>" and rest = "[\<lparr> data = ''BBBB'' \<rparr>, \<lparr> data = ''C'' \<rparr>]"
         and s = "withSession Loading 0"]
  show ?thesis by simp
qed

section \<open>Decode failures\<close>

text \<open>
  Claim C9, as stated, fails: the message handler does not catch a failing decode, so
  the failure leaves the handler as an exception (the promise of the async callback
  rejects). Here a chunk that does not decode arrives while playing.
\<close>

theorem decode_failure_escapes_handler:
  "fst (onmessage malformed 7 (chunkMessage ''@@@@'') (withSession Playing 9))
     = Threw (DecodeError ''malformed payload'') \<and>
   fst (onmessage malformed 7 (chunkMessage ''@@@@'') (withSession Playing 9)) \<noteq> Returned"
  by (simp add: onmessage_def Let_def chunkMessage_def withSession_def initial_def malformed_def)

text \<open>
  Claim C9, amended. When the first chunk of a message handled while playback is neither
  paused nor stopped fails to decode, the failure escapes the message handler as an
  exception, uncaught. Apart from that, only this chunk is lost: the state left behind is
  the one the same message without audio content leaves; nothing is started, playback
  state and cursor are as before, and no notice is shown for the failure.
\<close>

theorem decode_failure_drops_only_the_chunk:
  assumes "playbackState s \<noteq> Paused" "playbackState s \<noteq> Stopped"
    "serverContent e = Some sc" "audioChunks sc = Some (chunk # rest)" "dec (data chunk) = Inl err"
  shows "fst (onmessage dec now e s) = Threw err \<and>
         snd (onmessage dec now e s) = snd (onmessage dec now (e\<lparr>serverContent := None\<rparr>) s) \<and>
         playbackState (snd (onmessage dec now e s)) = playbackState s \<and>
         nextStartTime (snd (onmessage dec now e s)) = nextStartTime s \<and>
         started (snd (onmessage dec now e s)) = started s \<and>
         (filteredPrompt e = None \<longrightarrow> toasts (snd (onmessage dec now e s)) = toasts s)"
  using assms
  by (simp add: onmessage_def Let_def dispatchToast_def split: option.splits)

theorem decode_failure_drops_only_the_chunk_witness:
  "playbackState (withSession Playing 9) \<noteq> Paused \<and> playbackState (withSession Playing 9) \<noteq> Stopped \<and>
   malformed ''@@@@'' = Inl (DecodeError ''malformed payload'') \<and>
   onmessage malformed 7 (chunkMessage ''@@@@'') (withSession Playing 9)
     = (Threw (DecodeError ''malformed payload''), withSession Playing 9)"
proof -
  have h: "playbackState (withSession Playing 9) \<noteq> Paused" "playbackState (withSession Playing 9) \<noteq> Stopped"
    "serverContent (chunkMessage ''@@@@'') = Some \<lparr> audioChunks = Some [\<lparr> data = ''@@@@'' \<rparr>] \<rparr>"
    "audioChunks \<lparr> audioChunks = Some [\<lparr> data = ''@@@@'' \<rparr>] \<rparr> = Some (\<lparr> data = ''@@@@'' \<rparr> # [])"
    "malformed (data \<lparr> data = ''@@@@'' \<rparr>) = Inl (DecodeError ''malformed payload'')"
    by (simp_all add: withSession_def initial_def chunkMessage_def malformed_def)
  have m: "snd (onmessage malformed 7 ((chunkMessage ''@@@@'')\<lparr>serverContent := None\<rparr>) (withSession Playing 9))
             = withSession Playing 9"
    by (simp add: onmessage_def Let_def chunkMessage_def)
  from decode_failure_drops_only_the_chunk [where dec = malformed and now = 7, OF h]
  have "fst (onmessage malformed 7 (chunkMessage ''@@@@'') (withSession Playing 9)) = Threw (DecodeError ''malformed payload'')"
    and "snd (onmessage malformed 7 (chunkMessage ''@@@@'') (withSession Playing 9)) = withSession Playing 9"
    using m by simp_all
  then have "onmessage malformed 7 (chunkMessage ''@@@@'') (withSession Playing 9)
     = (Threw (DecodeError ''malformed payload''), withSession Playing 9)"
    by (simp add: prod_eq_iff)
  with h show ?thesis by (simp add: malformed_def)
qed

section \<open>What the throttled dispatchers leave alone\<close>

lemma setSessionPrompts_func_fields [simp]:
  "session (setSessionPrompts_func p s) = session s"
  "connectionError (setSessionPrompts_func p s) = connectionError s"
  "playbackState (setSessionPrompts_func p s) = playbackState s"
  "nextStartTime (setSessionPrompts_func p s) = nextStartTime s"
  "filteredPrompts (setSessionPrompts_func p s) = filteredPrompts s"
  "userPrompts (setSessionPrompts_func p s) = userPrompts s"
  "settingsController (setSessionPrompts_func p s) = settingsController s"
  "toasts (setSessionPrompts_func p s) = toasts s"
  "started (setSessionPrompts_func p s) = started s"
  "promptsLastCall (setSessionPrompts_func p s) = promptsLastCall s"
  "configLastCall (setSessionPrompts_func p s) = configLastCall s"
  "currentLyriaPrompts (setSessionPrompts_func p s) = currentLyriaPrompts s"
  by (simp_all add: setSessionPrompts_func_def Let_def)

lemma setSessionPrompts_fields [simp]:
  "session (setSessionPrompts n p s) = session s"
  "connectionError (setSessionPrompts n p s) = connectionError s"
  "playbackState (setSessionPrompts n p s) = playbackState s"
  "nextStartTime (setSessionPrompts n p s) = nextStartTime s"
  "filteredPrompts (setSessionPrompts n p s) = filteredPrompts s"
  "userPrompts (setSessionPrompts n p s) = userPrompts s"
  "settingsController (setSessionPrompts n p s) = settingsController s"
  "toasts (setSessionPrompts n p s) = toasts s"
  "started (setSessionPrompts n p s) = started s"
  "configLastCall (setSessionPrompts n p s) = configLastCall s"
  "currentLyriaPrompts (setSessionPrompts n p s) = currentLyriaPrompts s"
  by (simp_all add: setSessionPrompts_def throttle_def Let_def)

lemma updateLyriaConfig_func_fields [simp]:
  "session (updateLyriaConfig_func c s) = session s"
  "connectionError (updateLyriaConfig_func c s) = connectionError s"
  "playbackState (updateLyriaConfig_func c s) = playbackState s"
  "nextStartTime (updateLyriaConfig_func c s) = nextStartTime s"
  "filteredPrompts (updateLyriaConfig_func c s) = filteredPrompts s"
  "userPrompts (updateLyriaConfig_func c s) = userPrompts s"
  "settingsController (updateLyriaConfig_func c s) = settingsController s"
  "toasts (updateLyriaConfig_func c s) = toasts s"
  "started (updateLyriaConfig_func c s) = started s"
  "promptsLastCall (updateLyriaConfig_func c s) = promptsLastCall s"
  "configLastCall (updateLyriaConfig_func c s) = configLastCall s"
  "currentLyriaPrompts (updateLyriaConfig_func c s) = currentLyriaPrompts s"
  by (simp_all add: updateLyriaConfig_func_def)

lemma updateLyriaConfig_fields [simp]:
  "session (updateLyriaConfig n c s) = session s"
  "connectionError (updateLyriaConfig n c s) = connectionError s"
  "playbackState (updateLyriaConfig n c s) = playbackState s"
  "nextStartTime (updateLyriaConfig n c s) = nextStartTime s"
  "filteredPrompts (updateLyriaConfig n c s) = filteredPrompts s"
  "userPrompts (updateLyriaConfig n c s) = userPrompts s"
  "settingsController (updateLyriaConfig n c s) = settingsController s"
  "toasts (updateLyriaConfig n c s) = toasts s"
  "started (updateLyriaConfig n c s) = started s"
  "promptsLastCall (updateLyriaConfig n c s) = promptsLastCall s"
  "currentLyriaPrompts (updateLyriaConfig n c s) = currentLyriaPrompts s"
  by (simp_all add: updateLyriaConfig_def throttle_def Let_def)

lemma setSessionPrompts_func_calls:
  "sessionCalls (setSessionPrompts_func p s) = sessionCalls s \<or>
   (\<exists>ps. ps \<noteq> [] \<and> sessionCalls (setSessionPrompts_func p s) = sessionCalls s @ [SetWeightedPrompts ps])"
  by (simp add: setSessionPrompts_func_def Let_def)

lemma setSessionPrompts_empty_iff [simp]:
  "SetWeightedPrompts [] \<in> set (sessionCalls (setSessionPrompts n p s))
     \<longleftrightarrow> SetWeightedPrompts [] \<in> set (sessionCalls s)"
  using setSessionPrompts_func_calls [of p s]
  by (auto simp add: setSessionPrompts_def throttle_def Let_def)

lemma updateLyriaConfig_empty_iff [simp]:
  "SetWeightedPrompts [] \<in> set (sessionCalls (updateLyriaConfig n c s))
     \<longleftrightarrow> SetWeightedPrompts [] \<in> set (sessionCalls s)"
  by (simp add: updateLyriaConfig_def updateLyriaConfig_func_def throttle_def Let_def)

lemma updateLyriaPrompts_fields [simp]:
  "session (updateLyriaPrompts n pc s) = session s"
  "connectionError (updateLyriaPrompts n pc s) = connectionError s"
  "playbackState (updateLyriaPrompts n pc s) = playbackState s"
  "nextStartTime (updateLyriaPrompts n pc s) = nextStartTime s"
  "filteredPrompts (updateLyriaPrompts n pc s) = filteredPrompts s"
  "userPrompts (updateLyriaPrompts n pc s) = userPrompts s"
  "toasts (updateLyriaPrompts n pc s) = toasts s"
  "started (updateLyriaPrompts n pc s) = started s"
  by (simp_all add: updateLyriaPrompts_def Let_def split: option.splits)

lemma updateLyriaPrompts_empty_iff [simp]:
  "SetWeightedPrompts [] \<in> set (sessionCalls (updateLyriaPrompts n pc s))
     \<longleftrightarrow> SetWeightedPrompts [] \<in> set (sessionCalls s)"
  by (simp add: updateLyriaPrompts_def Let_def split: option.splits)

section \<open>Two invariants of every history\<close>

text \<open>
  Before the first session object exists nothing can leave the stopped state or move the
  cursor; and no prompt set handed to the session is empty.
\<close>

lemma step_idleWithoutSession:
  assumes "idleWithoutSession s"
  shows "idleWithoutSession (step dec ev s)"
proof (cases ev)
  case (Message now e)
  with assms show ?thesis
    by (auto simp add: idleWithoutSession_def onmessage_def schedule_def dispatchToast_def Let_def
          split: option.splits list.splits sum.splits)
next
  case (PlayPause r mcp wall now)
  with assms show ?thesis
    by (cases r; cases mcp)
       (auto simp add: idleWithoutSession_def handlePlayPause_def handlePlayPause_connected_def internalPauseAudio_def
          internalLoadAudio_def internalStopAudio_def dispatchToast_def)
next
  case (PlayAudio r mcp wall now)
  with assms show ?thesis
    by (cases r; cases mcp)
       (auto simp add: idleWithoutSession_def playAudio_def handlePlayPause_def handlePlayPause_connected_def internalPauseAudio_def
          internalLoadAudio_def internalStopAudio_def dispatchToast_def)
next
  case (Reset r wall now)
  with assms show ?thesis
    by (cases r)
       (auto simp add: idleWithoutSession_def handleReset_def handleReset_connected_def handleReset_rest_def handleSettingsChanged_def
          internalPauseAudio_def dispatchToast_def Let_def split: option.splits)
next
  case (PlayPauseConnected mcp wall now)
  with assms show ?thesis
    by (cases mcp)
       (auto simp add: idleWithoutSession_def handlePlayPause_connected_def internalLoadAudio_def dispatchToast_def)
next
  case (ResetConnected wall now)
  with assms show ?thesis
    by (auto simp add: idleWithoutSession_def handleReset_connected_def handleReset_rest_def handleSettingsChanged_def
          internalPauseAudio_def dispatchToast_def Let_def split: option.splits)
next
  case (SettingsInput wall i)
  with assms show ?thesis
    by (simp add: idleWithoutSession_def settingsInput_def handleSettingsChanged_def Let_def
          split: option.splits)
next
  case (Connect r)
  with assms show ?thesis
    by (cases r) (auto simp add: idleWithoutSession_def dispatchToast_def)
qed (use assms in \<open>auto simp add: idleWithoutSession_def onerror_def onclose_def internalStopAudio_def
       internalPauseAudio_def internalLoadAudio_def dispatchToast_def loadingTimerFired_def Let_def
       pauseAudio_def handleReset_timer_def handleUserPromptChanged_def handleAddUserPrompt_def
       handleUserPromptRemoved_def setSessionPrompts_catch_def updateLyriaConfig_catch_def
       split: option.splits\<close>)

lemma run_idleWithoutSession:
  "idleWithoutSession s \<Longrightarrow> idleWithoutSession (run dec evs s)"
  by (induction evs arbitrary: s) (simp_all add: step_idleWithoutSession)

lemma initial_idleWithoutSession: "idleWithoutSession (initial stored)"
  by (simp add: idleWithoutSession_def initial_def)

lemma step_noEmptyPromptSet:
  assumes "noEmptyPromptSet s"
  shows "noEmptyPromptSet (step dec ev s)"
proof (cases ev)
  case (Message now e)
  with assms show ?thesis
    by (auto simp add: noEmptyPromptSet_def onmessage_def schedule_def dispatchToast_def Let_def
          split: option.splits list.splits sum.splits)
next
  case (PlayPause r mcp wall now)
  with assms show ?thesis
    by (cases r; cases mcp)
       (auto simp add: noEmptyPromptSet_def handlePlayPause_def handlePlayPause_connected_def internalPauseAudio_def
          internalLoadAudio_def internalStopAudio_def dispatchToast_def)
next
  case (PlayAudio r mcp wall now)
  with assms show ?thesis
    by (cases r; cases mcp)
       (auto simp add: noEmptyPromptSet_def playAudio_def handlePlayPause_def handlePlayPause_connected_def internalPauseAudio_def
          internalLoadAudio_def internalStopAudio_def dispatchToast_def)
next
  case (Reset r wall now)
  with assms show ?thesis
    by (cases r)
       (auto simp add: noEmptyPromptSet_def handleReset_def handleReset_connected_def handleReset_rest_def handleSettingsChanged_def
          internalPauseAudio_def dispatchToast_def Let_def split: option.splits)
next
  case (PlayPauseConnected mcp wall now)
  with assms show ?thesis
    by (cases mcp)
       (auto simp add: noEmptyPromptSet_def handlePlayPause_connected_def internalLoadAudio_def dispatchToast_def)
next
  case (ResetConnected wall now)
  with assms show ?thesis
    by (auto simp add: noEmptyPromptSet_def handleReset_connected_def handleReset_rest_def handleSettingsChanged_def
          internalPauseAudio_def dispatchToast_def Let_def split: option.splits)
next
  case (SettingsInput wall i)
  with assms show ?thesis
    by (simp add: noEmptyPromptSet_def settingsInput_def handleSettingsChanged_def Let_def
          split: option.splits)
next
  case (Connect r)
  with assms show ?thesis
    by (cases r) (auto simp add: noEmptyPromptSet_def dispatchToast_def)
qed (use assms in \<open>auto simp add: noEmptyPromptSet_def onerror_def onclose_def internalStopAudio_def
       internalPauseAudio_def internalLoadAudio_def dispatchToast_def loadingTimerFired_def Let_def
       pauseAudio_def handleReset_timer_def handleUserPromptChanged_def handleAddUserPrompt_def
       handleUserPromptRemoved_def setSessionPrompts_catch_def updateLyriaConfig_catch_def
       split: option.splits\<close>)

lemma run_noEmptyPromptSet:
  "noEmptyPromptSet s \<Longrightarrow> noEmptyPromptSet (run dec evs s)"
  by (induction evs arbitrary: s) (simp_all add: step_noEmptyPromptSet)

lemma initial_noEmptyPromptSet: "noEmptyPromptSet (initial stored)"
  by (simp add: noEmptyPromptSet_def initial_def)

section \<open>Error and close events\<close>

lemma onerror_when_idle:
  assumes "idleWithoutSession s"
  shows "connectionError (onerror s) \<and> playbackState (onerror s) = Stopped \<and>
         nextStartTime (onerror s) = 0 \<and>
         toasts (onerror s) = toasts s @ [''Lyria connection error. Please restart.'']"
  using assms
  by (auto simp add: idleWithoutSession_def onerror_def internalStopAudio_def dispatchToast_def)

lemma onclose_when_idle:
  assumes "idleWithoutSession s"
  shows "connectionError (onclose False s) \<and> playbackState (onclose False s) = Stopped \<and>
         nextStartTime (onclose False s) = 0 \<and>
         toasts (onclose False s) = toasts s @ [''Lyria connection closed unexpectedly.'']"
  using assms
  by (auto simp add: idleWithoutSession_def onclose_def internalStopAudio_def dispatchToast_def)

text \<open>
  Claim C7. In the state reached by any history of events from the initial state, an
  error event, and likewise a close event that is not clean, sets the connection-error
  flag, leaves the playback state stopped (not paused) with the cursor at 0, and shows
  one notice; a clean close changes nothing, so it shows no notice either.
\<close>

theorem error_or_unclean_close_stops_playback:
  "connectionError (onerror (run dec evs (initial stored))) \<and>
   playbackState (onerror (run dec evs (initial stored))) = Stopped \<and>
   nextStartTime (onerror (run dec evs (initial stored))) = 0 \<and>
   toasts (onerror (run dec evs (initial stored)))
     = toasts (run dec evs (initial stored)) @ [''Lyria connection error. Please restart.''] \<and>
   connectionError (onclose False (run dec evs (initial stored))) \<and>
   playbackState (onclose False (run dec evs (initial stored))) = Stopped \<and>
   nextStartTime (onclose False (run dec evs (initial stored))) = 0 \<and>
   toasts (onclose False (run dec evs (initial stored)))
     = toasts (run dec evs (initial stored)) @ [''Lyria connection closed unexpectedly.''] \<and>
   onclose True (run dec evs (initial stored)) = run dec evs (initial stored)"
proof -
  have idle: "idleWithoutSession (run dec evs (initial stored))"
    by (rule run_idleWithoutSession) (rule initial_idleWithoutSession)
  have "onclose True (run dec evs (initial stored)) = run dec evs (initial stored)"
    by (simp add: onclose_def)
  with onerror_when_idle [OF idle] onclose_when_idle [OF idle] show ?thesis
    by simp
qed

theorem error_or_unclean_close_stops_playback_witness:
  "playbackState (run oneSecond
      [Connect Resolved,
       Message 0 \<lparr> setupComplete = True, filteredPrompt = None, serverContent = None \<rparr>,
       PlayPause Resolved None 1000 1, Message 2 (chunkMessage ''AAAA''), LoadingTimer] (initial []))
     = Playing \<and>
   playbackState (onerror (run oneSecond
      [Connect Resolved,
       Message 0 \<lparr> setupComplete = True, filteredPrompt = None, serverContent = None \<rparr>,
       PlayPause Resolved None 1000 1, Message 2 (chunkMessage ''AAAA''), LoadingTimer] (initial [])))
     = Stopped \<and>
   nextStartTime (onerror (run oneSecond
      [Connect Resolved,
       Message 0 \<lparr> setupComplete = True, filteredPrompt = None, serverContent = None \<rparr>,
       PlayPause Resolved None 1000 1, Message 2 (chunkMessage ''AAAA''), LoadingTimer] (initial [])))
     = 0"
proof -
  have "playbackState (run oneSecond
      [Connect Resolved,
       Message 0 \<lparr> setupComplete = True, filteredPrompt = None, serverContent = None \<rparr>,
       PlayPause Resolved None 1000 1, Message 2 (chunkMessage ''AAAA''), LoadingTimer] (initial []))
     = Playing"
    by (simp add: initial_def onmessage_def schedule_def Let_def handlePlayPause_def
          internalLoadAudio_def chunkMessage_def oneSecond_def loadingTimerFired_def bufferTime_def)
  with error_or_unclean_close_stops_playback [of oneSecond
      "[Connect Resolved,
       Message 0 \<lparr> setupComplete = True, filteredPrompt = None, serverContent = None \<rparr>,
       PlayPause Resolved None 1000 1, Message 2 (chunkMessage ''AAAA''), LoadingTimer]" "[]"]
  show ?thesis by simp
qed

section \<open>The prompt set that is sent\<close>

text \<open>
  Claim C4. A call of \<open>setSessionPrompts\<close> that the throttle lets through, on a live
  session, with an empty agent prompt list and every user prompt without positive weight
  or filtered, sends exactly the one filler prompt \<open>silence\<close> of weight 0.01. And in no
  history from the initial state is an empty prompt list ever sent.
\<close>

theorem empty_prompt_set_is_replaced_by_filler:
  "(session s \<and> \<not> connectionError s \<and> 200 \<le> now - promptsLastCall s \<and>
    (\<forall>p \<in> snd ` set (userPrompts s). weight p \<le> 0 \<or> ptext p \<in> filteredPrompts s) \<longrightarrow>
    setSessionPrompts now [] s =
      s\<lparr>sessionCalls := sessionCalls s @ [SetWeightedPrompts [\<lparr>wp_text = ''silence'', wp_weight = 1 / 100\<rparr>]],
        promptsLastCall := now\<rparr>) \<and>
   SetWeightedPrompts [] \<notin> set (sessionCalls (run dec evs (initial stored)))"
proof -
  have "setSessionPrompts now [] s =
      s\<lparr>sessionCalls := sessionCalls s @ [SetWeightedPrompts [\<lparr>wp_text = ''silence'', wp_weight = 1 / 100\<rparr>]],
        promptsLastCall := now\<rparr>"
    if h: "session s" "\<not> connectionError s" "200 \<le> now - promptsLastCall s"
      "\<forall>p \<in> snd ` set (userPrompts s). weight p \<le> 0 \<or> ptext p \<in> filteredPrompts s"
  proof -
    have "filter (\<lambda>p. weight p > 0 \<and> ptext p \<notin> filteredPrompts s) (map snd (userPrompts s)) = []"
      using h(4) by (auto simp: filter_empty_conv)
    then show ?thesis
      using h(1,2,3) by (simp add: setSessionPrompts_def throttle_def setSessionPrompts_func_def Let_def)
  qed
  moreover have "noEmptyPromptSet (run dec evs (initial stored))"
    by (rule run_noEmptyPromptSet) (rule initial_noEmptyPromptSet)
  ultimately show ?thesis
    by (simp add: noEmptyPromptSet_def)
qed

theorem empty_prompt_set_is_replaced_by_filler_witness:
  "sessionCalls (setSessionPrompts 1000 []
      ((withSession Playing 5)\<lparr>filteredPrompts := {''Thrash''},
         userPrompts := [(''userprompt-0'', \<lparr>promptId = ''userprompt-0'', color = ''#9900ff'', ptext = ''Funk'',
                                            weight = 0, isTextEditable = Some True\<rparr>),
                         (''userprompt-1'', \<lparr>promptId = ''userprompt-1'', color = ''#5200ff'', ptext = ''Thrash'',
                                            weight = 1, isTextEditable = Some True\<rparr>)]\<rparr>))
     = [SetWeightedPrompts [\<lparr>wp_text = ''silence'', wp_weight = 1 / 100\<rparr>]]"
proof -
  let ?s = "(withSession Playing 5)\<lparr>filteredPrompts := {''Thrash''},
         userPrompts := [(''userprompt-0'', \<lparr>promptId = ''userprompt-0'', color = ''#9900ff'', ptext = ''Funk'',
                                            weight = 0, isTextEditable = Some True\<rparr>),
                         (''userprompt-1'', \<lparr>promptId = ''userprompt-1'', color = ''#5200ff'', ptext = ''Thrash'',
                                            weight = 1, isTextEditable = Some True\<rparr>)]\<rparr>"
  have "session ?s \<and> \<not> connectionError ?s \<and> 200 \<le> 1000 - promptsLastCall ?s \<and>
    (\<forall>p \<in> snd ` set (userPrompts ?s). weight p \<le> 0 \<or> ptext p \<in> filteredPrompts ?s)"
    by (simp add: withSession_def initial_def)
  with empty_prompt_set_is_replaced_by_filler [of ?s 1000 oneSecond "[]" "[]"]
  have "setSessionPrompts 1000 [] ?s =
      ?s\<lparr>sessionCalls := sessionCalls ?s @ [SetWeightedPrompts [\<lparr>wp_text = ''silence'', wp_weight = 1 / 100\<rparr>]],
        promptsLastCall := 1000\<rparr>"
    by blast
  then show ?thesis
    by (simp add: withSession_def initial_def)
qed

section \<open>Rejected control-plane sends\<close>

text \<open>
  Both rejections are handled by the catch block of their dispatcher, modelled as the
  functions \<open>setSessionPrompts_catch\<close> and \<open>updateLyriaConfig_catch\<close>: nothing escapes,
  and one notice is shown, a fixed prefix followed by at most the first 100 characters of
  the error message. The handler of a rejected prompt-set send goes on to pause: on a
  live session the pause command is sent, the state becomes paused and the cursor is 0.
\<close>

lemma rejected_sends_show_notice:
  "toasts (setSessionPrompts_catch now message s) = toasts s @ [''Error setting prompts: '' @ take 100 message]"
  "toasts (updateLyriaConfig_catch message s) = toasts s @ [''Error setting Lyria config: '' @ take 100 message]"
  by (simp_all add: setSessionPrompts_catch_def updateLyriaConfig_catch_def internalPauseAudio_def dispatchToast_def)

lemma rejected_prompt_send_pauses:
  assumes "session s" "\<not> connectionError s"
  shows "playbackState (setSessionPrompts_catch now message s) = Paused"
    "nextStartTime (setSessionPrompts_catch now message s) = 0"
    "sessionCalls (setSessionPrompts_catch now message s) = sessionCalls s @ [SessionPause]"
  using assms
  by (simp_all add: setSessionPrompts_catch_def internalPauseAudio_def dispatchToast_def)

text \<open>The handler of a rejected config send changes nothing but the notices.\<close>

lemma updateLyriaConfig_catch_only_toasts:
  "updateLyriaConfig_catch message s = s\<lparr>toasts := toasts s @ [''Error setting Lyria config: '' @ take 100 message]\<rparr>"
  by (simp add: updateLyriaConfig_catch_def dispatchToast_def)

text \<open>
  Claim C6 holds for the prompt-set path and fails on the code for the config path. The
  session is set up, playback is started and reaches playing, a tempo edit in the
  settings panel sends a config, and that send is rejected: the notice is shown, but no
  pause is sent and playback stays playing with its cursor. The same history ending in
  a rejected prompt-set send ends paused with the cursor at 0.
\<close>

theorem rejected_config_send_does_not_pause:
  "playbackState (run oneSecond
      [Connect Resolved, Rendered,
       Message 0 \<lparr> setupComplete = True, filteredPrompt = None, serverContent = None \<rparr>,
       PlayPause Resolved None 1000 1, Message 2 (chunkMessage ''AAAA''), LoadingTimer,
       SettingsInput 5000 (KnobInput ''bpm'' (Some (CNum 120))),
       ConfigRejected ''deadline exceeded''] (initial []))
     = Playing \<and>
   nextStartTime (run oneSecond
      [Connect Resolved, Rendered,
       Message 0 \<lparr> setupComplete = True, filteredPrompt = None, serverContent = None \<rparr>,
       PlayPause Resolved None 1000 1, Message 2 (chunkMessage ''AAAA''), LoadingTimer,
       SettingsInput 5000 (KnobInput ''bpm'' (Some (CNum 120))),
       ConfigRejected ''deadline exceeded''] (initial []))
     = 5 \<and>
   sessionCalls (run oneSecond
      [Connect Resolved, Rendered,
       Message 0 \<lparr> setupComplete = True, filteredPrompt = None, serverContent = None \<rparr>,
       PlayPause Resolved None 1000 1, Message 2 (chunkMessage ''AAAA''), LoadingTimer,
       SettingsInput 5000 (KnobInput ''bpm'' (Some (CNum 120))),
       ConfigRejected ''deadline exceeded''] (initial []))
     = [SessionPlay,
        SetMusicGenerationConfig
          (defaultConfig\<lparr>density := Undefined, brightness := Undefined,
             knobs := knobs defaultConfig @ [(''bpm'', Some (CNum 120))]\<rparr>)] \<and>
   toasts (run oneSecond
      [Connect Resolved, Rendered,
       Message 0 \<lparr> setupComplete = True, filteredPrompt = None, serverContent = None \<rparr>,
       PlayPause Resolved None 1000 1, Message 2 (chunkMessage ''AAAA''), LoadingTimer,
       SettingsInput 5000 (KnobInput ''bpm'' (Some (CNum 120))),
       ConfigRejected ''deadline exceeded''] (initial []))
     = [''Error setting Lyria config: deadline exceeded''] \<and>
   playbackState (run oneSecond
      [Connect Resolved, Rendered,
       Message 0 \<lparr> setupComplete = True, filteredPrompt = None, serverContent = None \<rparr>,
       PlayPause Resolved None 1000 1, Message 2 (chunkMessage ''AAAA''), LoadingTimer,
       SettingsInput 5000 (KnobInput ''bpm'' (Some (CNum 120))),
       PromptsRejected 4 ''deadline exceeded''] (initial []))
     = Paused \<and>
   nextStartTime (run oneSecond
      [Connect Resolved, Rendered,
       Message 0 \<lparr> setupComplete = True, filteredPrompt = None, serverContent = None \<rparr>,
       PlayPause Resolved None 1000 1, Message 2 (chunkMessage ''AAAA''), LoadingTimer,
       SettingsInput 5000 (KnobInput ''bpm'' (Some (CNum 120))),
       PromptsRejected 4 ''deadline exceeded''] (initial []))
     = 0"
  by (simp add: initial_def onmessage_def schedule_def Let_def handlePlayPause_def
        internalLoadAudio_def internalPauseAudio_def chunkMessage_def oneSecond_def
        loadingTimerFired_def bufferTime_def duration_def settingsInput_def
        handleSettingsChanged_def updateLyriaConfig_def updateLyriaConfig_func_def throttle_def
        connectedCallback_def newSettingsController_def defaultConfig_def
        dispatchSettingsChange_def updateLyriaConfig_catch_def setSessionPrompts_catch_def
        dispatchToast_def)

section \<open>Throttling\<close>

lemma setSessionPrompts_dropped:
  "now - promptsLastCall s < 200 \<Longrightarrow> setSessionPrompts now prompts s = s"
  by (simp add: setSessionPrompts_def throttle_def Let_def)

lemma updateLyriaConfig_dropped:
  "now - configLastCall s < 200 \<Longrightarrow> updateLyriaConfig now cfg s = s"
  by (simp add: updateLyriaConfig_def throttle_def Let_def)

lemma setSessionPrompts_all_dropped:
  "\<forall>c \<in> set later. fst c - promptsLastCall s < 200 \<Longrightarrow>
   fold (\<lambda>c. setSessionPrompts (fst c) (snd c)) later s = s"
  by (induction later) (simp_all add: setSessionPrompts_dropped)

lemma updateLyriaConfig_all_dropped:
  "\<forall>c \<in> set later. fst c - configLastCall s < 200 \<Longrightarrow>
   fold (\<lambda>c. updateLyriaConfig (fst c) (snd c)) later s = s"
  by (induction later) (simp_all add: updateLyriaConfig_dropped)

text \<open>
  Claim C3, as stated, fails: the throttle has no trailing call. Two edits of a user
  prompt 100 ms apart, on a live session: the weight 1/2 of the first edit is sent, the
  weight 1 of the last edit is stored but never sent.
\<close>

theorem throttle_sends_first_not_last:
  "sessionCalls
     (handleUserPromptChanged 1100
        \<lparr>promptId = ''userprompt-0'', color = ''#9900ff'', ptext = ''Funk'', weight = 1, isTextEditable = Some True\<rparr>
        (handleUserPromptChanged 1000
           \<lparr>promptId = ''userprompt-0'', color = ''#9900ff'', ptext = ''Funk'', weight = 1 / 2, isTextEditable = Some True\<rparr>
           ((withSession Playing 9)\<lparr>userPrompts :=
               [(''userprompt-0'', \<lparr>promptId = ''userprompt-0'', color = ''#9900ff'', ptext = ''Funk'',
                                    weight = 0, isTextEditable = Some True\<rparr>)]\<rparr>)))
     = [SetWeightedPrompts [\<lparr>wp_text = ''Funk'', wp_weight = 1 / 2\<rparr>]] \<and>
   userPrompts
     (handleUserPromptChanged 1100
        \<lparr>promptId = ''userprompt-0'', color = ''#9900ff'', ptext = ''Funk'', weight = 1, isTextEditable = Some True\<rparr>
        (handleUserPromptChanged 1000
           \<lparr>promptId = ''userprompt-0'', color = ''#9900ff'', ptext = ''Funk'', weight = 1 / 2, isTextEditable = Some True\<rparr>
           ((withSession Playing 9)\<lparr>userPrompts :=
               [(''userprompt-0'', \<lparr>promptId = ''userprompt-0'', color = ''#9900ff'', ptext = ''Funk'',
                                    weight = 0, isTextEditable = Some True\<rparr>)]\<rparr>)))
     = [(''userprompt-0'', \<lparr>promptId = ''userprompt-0'', color = ''#9900ff'', ptext = ''Funk'',
                            weight = 1, isTextEditable = Some True\<rparr>)]"
  by (simp add: handleUserPromptChanged_def setSessionPrompts_def throttle_def setSessionPrompts_func_def
        Let_def withSession_def initial_def)

text \<open>
  Claim C3, amended. Of M calls of a throttled dispatcher (M at least 1), the first at
  least 200 ms after the last call let through and every other one less than 200 ms
  after the first, exactly the first is let through: the result is that of the wrapped
  function run once, with the argument of the first call on the state of that moment,
  and the later calls are dropped without any effect. On a live session this sends exactly
  one command, which carries the value of the first call.
\<close>

theorem throttle_window_sends_first_call_only:
  "(200 \<le> t - promptsLastCall s \<and> (\<forall>c \<in> set later. fst c - t < 200) \<longrightarrow>
      fold (\<lambda>c. setSessionPrompts (fst c) (snd c)) ((t, prompts) # later) s
        = (setSessionPrompts_func prompts s)\<lparr>promptsLastCall := t\<rparr> \<and>
      (session s \<and> \<not> connectionError s \<longrightarrow>
         (\<exists>ps. sessionCalls (fold (\<lambda>c. setSessionPrompts (fst c) (snd c)) ((t, prompts) # later) s)
                  = sessionCalls s @ [SetWeightedPrompts ps] \<and>
               (prompts \<noteq> [] \<longrightarrow> take (length prompts) ps = prompts)))) \<and>
   (200 \<le> t - configLastCall s \<and> (\<forall>c \<in> set later'. fst c - t < 200) \<longrightarrow>
      fold (\<lambda>c. updateLyriaConfig (fst c) (snd c)) ((t, cfg) # later') s
        = (updateLyriaConfig_func cfg s)\<lparr>configLastCall := t\<rparr> \<and>
      (session s \<and> \<not> connectionError s \<longrightarrow>
         sessionCalls (fold (\<lambda>c. updateLyriaConfig (fst c) (snd c)) ((t, cfg) # later') s)
           = sessionCalls s @ [SetMusicGenerationConfig cfg]))"
proof -
  have p: "fold (\<lambda>c. setSessionPrompts (fst c) (snd c)) ((t, prompts) # later) s
        = (setSessionPrompts_func prompts s)\<lparr>promptsLastCall := t\<rparr>"
    if "200 \<le> t - promptsLastCall s" "\<forall>c \<in> set later. fst c - t < 200"
  proof -
    have "setSessionPrompts t prompts s = (setSessionPrompts_func prompts s)\<lparr>promptsLastCall := t\<rparr>"
      using that(1) by (simp add: setSessionPrompts_def throttle_def Let_def)
    moreover have "fold (\<lambda>c. setSessionPrompts (fst c) (snd c)) later
                     ((setSessionPrompts_func prompts s)\<lparr>promptsLastCall := t\<rparr>)
                   = (setSessionPrompts_func prompts s)\<lparr>promptsLastCall := t\<rparr>"
      by (rule setSessionPrompts_all_dropped) (use that(2) in simp)
    ultimately show ?thesis by simp
  qed
  have c: "fold (\<lambda>c. updateLyriaConfig (fst c) (snd c)) ((t, cfg) # later') s
        = (updateLyriaConfig_func cfg s)\<lparr>configLastCall := t\<rparr>"
    if "200 \<le> t - configLastCall s" "\<forall>c \<in> set later'. fst c - t < 200"
  proof -
    have "updateLyriaConfig t cfg s = (updateLyriaConfig_func cfg s)\<lparr>configLastCall := t\<rparr>"
      using that(1) by (simp add: updateLyriaConfig_def throttle_def Let_def)
    moreover have "fold (\<lambda>c. updateLyriaConfig (fst c) (snd c)) later'
                     ((updateLyriaConfig_func cfg s)\<lparr>configLastCall := t\<rparr>)
                   = (updateLyriaConfig_func cfg s)\<lparr>configLastCall := t\<rparr>"
      by (rule updateLyriaConfig_all_dropped) (use that(2) in simp)
    ultimately show ?thesis by simp
  qed
  have ps: "\<exists>ps. sessionCalls (setSessionPrompts_func prompts s) = sessionCalls s @ [SetWeightedPrompts ps] \<and>
               (prompts \<noteq> [] \<longrightarrow> take (length prompts) ps = prompts)"
    if "session s" "\<not> connectionError s"
    using that by (simp add: setSessionPrompts_func_def Let_def)
  have cs: "sessionCalls (updateLyriaConfig_func cfg s) = sessionCalls s @ [SetMusicGenerationConfig cfg]"
    if "session s" "\<not> connectionError s"
    using that by (simp add: updateLyriaConfig_func_def)
  show ?thesis
    using p c ps cs by simp
qed


theorem throttle_window_sends_first_call_only_witness:
  "sessionCalls (fold (\<lambda>c. setSessionPrompts (fst c) (snd c))
      [(1000, [\<lparr>wp_text = ''warm pads'', wp_weight = 1\<rparr>]),
       (1100, [\<lparr>wp_text = ''driving bass'', wp_weight = 1\<rparr>]),
       (1199, [\<lparr>wp_text = ''calm'', wp_weight = 1\<rparr>])] (withSession Playing 9))
     = [SetWeightedPrompts [\<lparr>wp_text = ''warm pads'', wp_weight = 1\<rparr>]] \<and>
   sessionCalls (fold (\<lambda>c. updateLyriaConfig (fst c) (snd c))
      [(1000, defaultConfig), (1150, defaultConfig\<lparr>density := Defined (3 / 10)\<rparr>)] (withSession Playing 9))
     = [SetMusicGenerationConfig defaultConfig]"
proof -
  have h: "session (withSession Playing 9)" "\<not> connectionError (withSession Playing 9)"
    "200 \<le> 1000 - promptsLastCall (withSession Playing 9)"
    "200 \<le> 1000 - configLastCall (withSession Playing 9)"
    "sessionCalls (withSession Playing 9) = []" "userPrompts (withSession Playing 9) = []"
    by (simp_all add: withSession_def initial_def)
  have l: "\<forall>c \<in> set [(1100, [\<lparr>wp_text = ''driving bass'', wp_weight = 1\<rparr>]),
                       (1199, [\<lparr>wp_text = ''calm'', wp_weight = 1\<rparr>])]. fst c - 1000 < (200::int)"
    "\<forall>c \<in> set [(1150, defaultConfig\<lparr>density := Defined (3 / 10)\<rparr>)]. fst c - 1000 < (200::int)"
    by simp_all
  from throttle_window_sends_first_call_only
         [where t = 1000 and s = "withSession Playing 9"
            and prompts = "[\<lparr>wp_text = ''warm pads'', wp_weight = 1\<rparr>]"
            and later = "[(1100, [\<lparr>wp_text = ''driving bass'', wp_weight = 1\<rparr>]),
                          (1199, [\<lparr>wp_text = ''calm'', wp_weight = 1\<rparr>])]"
            and cfg = defaultConfig
            and later' = "[(1150, defaultConfig\<lparr>density := Defined (3 / 10)\<rparr>)]"] h(3,4) l
  have "fold (\<lambda>c. setSessionPrompts (fst c) (snd c))
          [(1000, [\<lparr>wp_text = ''warm pads'', wp_weight = 1\<rparr>]),
           (1100, [\<lparr>wp_text = ''driving bass'', wp_weight = 1\<rparr>]),
           (1199, [\<lparr>wp_text = ''calm'', wp_weight = 1\<rparr>])] (withSession Playing 9)
        = (setSessionPrompts_func [\<lparr>wp_text = ''warm pads'', wp_weight = 1\<rparr>] (withSession Playing 9))
            \<lparr>promptsLastCall := 1000\<rparr>"
    and "fold (\<lambda>c. updateLyriaConfig (fst c) (snd c))
          [(1000, defaultConfig), (1150, defaultConfig\<lparr>density := Defined (3 / 10)\<rparr>)] (withSession Playing 9)
        = (updateLyriaConfig_func defaultConfig (withSession Playing 9))\<lparr>configLastCall := 1000\<rparr>"
    by blast+
  then show ?thesis
    using h(1,2,5,6) by (simp add: setSessionPrompts_func_def updateLyriaConfig_func_def)
qed

section \<open>Filtered prompts\<close>

text \<open>The filtered set only grows: no event of a history removes a text from it.\<close>

lemma step_filteredPrompts_mono:
  "filteredPrompts s \<subseteq> filteredPrompts (step dec ev s)"
proof (cases ev)
  case (Message now e)
  then show ?thesis
    by (auto simp add: onmessage_def schedule_def dispatchToast_def Let_def
          split: option.splits list.splits sum.splits)
next
  case (PlayPause r mcp wall now)
  then show ?thesis
    by (cases r; cases mcp)
       (auto simp add: handlePlayPause_def handlePlayPause_connected_def internalPauseAudio_def
          internalLoadAudio_def internalStopAudio_def dispatchToast_def)
next
  case (PlayAudio r mcp wall now)
  then show ?thesis
    by (cases r; cases mcp)
       (auto simp add: playAudio_def handlePlayPause_def handlePlayPause_connected_def internalPauseAudio_def
          internalLoadAudio_def internalStopAudio_def dispatchToast_def)
next
  case (Reset r wall now)
  then show ?thesis
    by (cases r)
       (auto simp add: handleReset_def handleReset_connected_def handleReset_rest_def handleSettingsChanged_def
          internalPauseAudio_def dispatchToast_def Let_def split: option.splits)
next
  case (PlayPauseConnected mcp wall now)
  then show ?thesis
    by (cases mcp)
       (auto simp add: handlePlayPause_connected_def internalLoadAudio_def dispatchToast_def)
next
  case (ResetConnected wall now)
  then show ?thesis
    by (auto simp add: handleReset_connected_def handleReset_rest_def handleSettingsChanged_def
          internalPauseAudio_def dispatchToast_def Let_def split: option.splits)
next
  case (SettingsInput wall i)
  then show ?thesis
    by (simp add: settingsInput_def handleSettingsChanged_def Let_def split: option.splits)
next
  case (Connect r)
  then show ?thesis
    by (cases r) (auto simp add: dispatchToast_def)
qed (auto simp add: onerror_def onclose_def internalStopAudio_def
       internalPauseAudio_def internalLoadAudio_def dispatchToast_def loadingTimerFired_def Let_def
       pauseAudio_def handleReset_timer_def handleUserPromptChanged_def handleAddUserPrompt_def
       handleUserPromptRemoved_def setSessionPrompts_catch_def updateLyriaConfig_catch_def
       split: option.splits)

lemma run_filteredPrompts_mono:
  "filteredPrompts s \<subseteq> filteredPrompts (run dec evs s)"
proof (induction evs arbitrary: s)
  case Nil
  show ?case by simp
next
  case (Cons ev evs)
  have "filteredPrompts s \<subseteq> filteredPrompts (step dec ev s)"
    by (rule step_filteredPrompts_mono)
  also have "\<dots> \<subseteq> filteredPrompts (run dec evs (step dec ev s))"
    by (rule Cons.IH)
  finally show ?case by simp
qed

lemma filtered_text_is_recorded:
  "filteredPrompt e = Some fp \<Longrightarrow> fp_text fp \<in> filteredPrompts (snd (onmessage dec now e s))"
  by (auto simp add: onmessage_def schedule_def dispatchToast_def Let_def
        split: option.splits list.splits sum.splits)

text \<open>
  The list sent is the agent's list, as it is, followed by the user prompts of positive
  weight whose text is not filtered (or the filler when both are empty).
\<close>

lemma user_prompts_sent_are_not_filtered:
  assumes "session s" "\<not> connectionError s"
  shows "\<exists>ws. sessionCalls (setSessionPrompts_func prompts s)
               = sessionCalls s @ [SetWeightedPrompts
                    (if prompts @ ws = [] then [\<lparr>wp_text = ''silence'', wp_weight = 1 / 100\<rparr>] else prompts @ ws)] \<and>
              (\<forall>w \<in> set ws. wp_text w \<notin> filteredPrompts s \<and> 0 < wp_weight w)"
proof -
  let ?ws = "map (\<lambda>p. \<lparr>wp_text = ptext p, wp_weight = weight p\<rparr>)
               (filter (\<lambda>p. weight p > 0 \<and> ptext p \<notin> filteredPrompts s) (map snd (userPrompts s)))"
  have "sessionCalls (setSessionPrompts_func prompts s)
          = sessionCalls s @ [SetWeightedPrompts
              (if prompts @ ?ws = [] then [\<lparr>wp_text = ''silence'', wp_weight = 1 / 100\<rparr>] else prompts @ ?ws)]"
    using assms by (simp add: setSessionPrompts_func_def Let_def)
  moreover have "\<forall>w \<in> set ?ws. wp_text w \<notin> filteredPrompts s \<and> 0 < wp_weight w"
    by auto
  ultimately show ?thesis by blast
qed

text \<open>
  Claim C5 fails on the code for a text that comes from the agent. The session is set
  up, the agent's prompt \<open>Thrash\<close> is sent, the service reports it filtered, and the
  agent's next output, 500 ms later, sends the same text again: only the user prompts
  pass through the filter.
\<close>

theorem filtered_agent_prompt_is_sent_again:
  "''Thrash'' \<in> filteredPrompts (run oneSecond
      [Connect Resolved,
       Message 0 \<lparr> setupComplete = True, filteredPrompt = None, serverContent = None \<rparr>,
       AgentOutput 1000 \<lparr> mcp_weightedPrompts = [\<lparr>wp_text = ''Thrash'', wp_weight = 1\<rparr>], mcp_config = None \<rparr>,
       Message 0 \<lparr> setupComplete = False,
                   filteredPrompt = Some \<lparr> fp_text = ''Thrash'', filteredReason = ''blocked'' \<rparr>,
                   serverContent = None \<rparr>,
       AgentOutput 1500 \<lparr> mcp_weightedPrompts = [\<lparr>wp_text = ''Thrash'', wp_weight = 1\<rparr>], mcp_config = None \<rparr>]
      (initial [])) \<and>
   sessionCalls (run oneSecond
      [Connect Resolved,
       Message 0 \<lparr> setupComplete = True, filteredPrompt = None, serverContent = None \<rparr>,
       AgentOutput 1000 \<lparr> mcp_weightedPrompts = [\<lparr>wp_text = ''Thrash'', wp_weight = 1\<rparr>], mcp_config = None \<rparr>,
       Message 0 \<lparr> setupComplete = False,
                   filteredPrompt = Some \<lparr> fp_text = ''Thrash'', filteredReason = ''blocked'' \<rparr>,
                   serverContent = None \<rparr>,
       AgentOutput 1500 \<lparr> mcp_weightedPrompts = [\<lparr>wp_text = ''Thrash'', wp_weight = 1\<rparr>], mcp_config = None \<rparr>]
      (initial []))
     = [SetWeightedPrompts [\<lparr>wp_text = ''Thrash'', wp_weight = 1\<rparr>],
        SetWeightedPrompts [\<lparr>wp_text = ''Thrash'', wp_weight = 1\<rparr>]]"
  by (simp add: initial_def onmessage_def Let_def dispatchToast_def updateLyriaPrompts_def
        setSessionPrompts_def throttle_def setSessionPrompts_func_def)

section \<open>Auto and manual mode of density and brightness\<close>

lemma dispatchSettingsChange_last [simp]:
  "last (settingsChanged (dispatchSettingsChange c))
     = (let configToSend = config c;
            configToSend = (if autoDensity c then configToSend\<lparr>density := Undefined\<rparr> else configToSend)
        in if autoBrightness c then configToSend\<lparr>brightness := Undefined\<rparr> else configToSend)"
  "autoDensity (dispatchSettingsChange c) = autoDensity c"
  "autoBrightness (dispatchSettingsChange c) = autoBrightness c"
  "lastDefinedDensity (dispatchSettingsChange c) = lastDefinedDensity c"
  "lastDefinedBrightness (dispatchSettingsChange c) = lastDefinedBrightness c"
  "config (dispatchSettingsChange c) = config c"
  by (simp_all add: dispatchSettingsChange_def Let_def)






section \<open>Back-to-back scheduling\<close>





lemma interleaved_Nil [simp]: "interleaved [] = []"
  by (simp add: interleaved_def)










end
